theory Spec2Isabelle
  imports Complex_Main "HOL-Library.Multiset" "HOL-Library.Product_Lexorder"
begin

section \<open>Retail BI system: the ETL transformation (02_etl/pipeline.py)\<close>

text \<open>
  A shallow embedding of \<^verbatim>\<open>ETLPipeline.transform\<close> and of \<^verbatim>\<open>ETLPipeline.run\<close>.
  The data frames of the source are lists of records, one record per row, with the
  source's column names. The pandas and numpy operations the source calls
  (\<^verbatim>\<open>groupby(...).agg\<close>, \<^verbatim>\<open>pd.qcut\<close>, \<^verbatim>\<open>sort_values\<close>, \<^verbatim>\<open>cumsum\<close>, \<^verbatim>\<open>round\<close>,
  float division) are written out as list functions.

  Numbers: a finite float64 is idealised as a \<^typ>\<open>real\<close> (no rounding error, no
  negative zero); the non-finite results of float division are kept, in the type
  \<open>float64\<close> below. Cells that pandas reads as missing (NaT, NaN) are not part
  of the model of the input.
\<close>

subsection \<open>Exceptions\<close>

datatype exn = AttributeError | TypeError | ValueError | IndexError

subsection \<open>float64 results: finite, infinite, not-a-number\<close>

datatype float64 = Fin real | PInf | NInf | NaN

text \<open>numpy float division: a zero divisor gives NaN for 0/0 and an infinity otherwise;
  nothing is raised.\<close>

definition fdiv :: "real \<Rightarrow> real \<Rightarrow> float64" where
  "fdiv a b =
     (if b = 0 then (if a = 0 then NaN else if 0 < a then PInf else NInf)
      else Fin (a / b))"

text \<open>Multiplication by a positive finite constant, \<^verbatim>\<open>* 100\<close> in the source.\<close>

definition fscale :: "float64 \<Rightarrow> real \<Rightarrow> float64" where
  "fscale x c = (case x of Fin v \<Rightarrow> Fin (v * c) | PInf \<Rightarrow> PInf | NInf \<Rightarrow> NInf | NaN \<Rightarrow> NaN)"

text \<open>\<^verbatim>\<open>rint\<close>: round to the nearest integer, halves to the even neighbour.\<close>

definition rint :: "real \<Rightarrow> int" where
  "rint x =
     (let f = \<lfloor>x\<rfloor>; d = x - of_int f
      in if d < 1 / 2 then f
         else if 1 / 2 < d then f + 1
         else if even f then f else f + 1)"

text \<open>\<^verbatim>\<open>.round(2)\<close>: scale by 100, \<^verbatim>\<open>rint\<close>, scale back.\<close>

definition round2 :: "real \<Rightarrow> real" where
  "round2 x = of_int (rint (x * 100)) / 100"

definition fround2 :: "float64 \<Rightarrow> float64" where
  "fround2 x = (case x of Fin v \<Rightarrow> Fin (round2 v) | PInf \<Rightarrow> PInf | NInf \<Rightarrow> NInf | NaN \<Rightarrow> NaN)"

text \<open>\<^verbatim>\<open>pct <= c\<close> on a float: every comparison with NaN is false.\<close>

definition fle :: "float64 \<Rightarrow> real \<Rightarrow> bool" where
  "fle x c = (case x of Fin v \<Rightarrow> v \<le> c | PInf \<Rightarrow> False | NInf \<Rightarrow> True | NaN \<Rightarrow> False)"

subsection \<open>Segment assignment (segment\_customer, lines 95-105)\<close>

text \<open>\<^verbatim>\<open>score[i]\<close> on a Python string raises IndexError out of range.\<close>

definition char_at :: "string \<Rightarrow> nat \<Rightarrow> exn + char" where
  "char_at s i = (if i < length s then Inr (s ! i) else Inl IndexError)"

text \<open>\<^verbatim>\<open>score[0] in A and score[1] in B\<close>: the second index is only read when the
  first test holds.\<close>

definition both_in :: "string \<Rightarrow> string \<Rightarrow> string \<Rightarrow> exn + bool" where
  "both_in s A B =
     (case char_at s 0 of
        Inl e \<Rightarrow> Inl e
      | Inr c0 \<Rightarrow>
          if c0 \<in> set A
          then (case char_at s 1 of Inl e \<Rightarrow> Inl e | Inr c1 \<Rightarrow> Inr (c1 \<in> set B))
          else Inr False)"

definition segment_customer :: "string \<Rightarrow> exn + string" where
  "segment_customer score =
     (case both_in score ''45'' ''45'' of
        Inl e \<Rightarrow> Inl e
      | Inr True \<Rightarrow> Inr ''Champions''
      | Inr False \<Rightarrow>
     (case both_in score ''345'' ''34'' of
        Inl e \<Rightarrow> Inl e
      | Inr True \<Rightarrow> Inr ''Leais''
      | Inr False \<Rightarrow>
     (case both_in score ''45'' ''12'' of
        Inl e \<Rightarrow> Inl e
      | Inr True \<Rightarrow> Inr ''Potencial''
      | Inr False \<Rightarrow>
     (case both_in score ''23'' ''234'' of
        Inl e \<Rightarrow> Inl e
      | Inr True \<Rightarrow> Inr ''Em Risco''
      | Inr False \<Rightarrow> Inr ''Perdidos''))))"

subsection \<open>ABC class (classificar\_abc, lines 121-127)\<close>

definition classificar_abc :: "float64 \<Rightarrow> string" where
  "classificar_abc pct = (if fle pct 80 then ''A'' else if fle pct 95 then ''B'' else ''C'')"

subsection \<open>The sales table as extract leaves it (fato\_vendas)\<close>

text \<open>
  \<^verbatim>\<open>pd.read_csv(..., parse_dates=['Data_Venda'])\<close>: a date cell is a timestamp
  (nanoseconds since 1970-01-01) when it parses; when some cell of the column does not
  parse, pandas keeps the column as strings. A numeric column with a cell that is not a
  number is kept as strings as well.
\<close>

datatype date_cell = Timestamp (ts: int) | Unparsed string

datatype num_cell = Num (num: real) | Text string

record linha =
  ID_Venda :: nat
  Data_Venda :: date_cell
  ID_Cliente :: nat
  ID_Produto :: nat
  Quantidade :: int
  Receita_Liquida :: num_cell
  Lucro_Bruto :: num_cell

definition datetimelike :: "linha list \<Rightarrow> bool" where
  "datetimelike rows = list_all (\<lambda>r. case Data_Venda r of Timestamp _ \<Rightarrow> True | Unparsed _ \<Rightarrow> False) rows"

definition numeric :: "(linha \<Rightarrow> num_cell) \<Rightarrow> linha list \<Rightarrow> bool" where
  "numeric col rows = list_all (\<lambda>r. case col r of Num _ \<Rightarrow> True | Text _ \<Rightarrow> False) rows"

subsection \<open>Calendar fields of a timestamp (\<^verbatim>\<open>.dt.year\<close>, \<^verbatim>\<open>.dt.month\<close>, \<^verbatim>\<open>.dt.dayofweek\<close>)\<close>

definition ns_per_day :: int where
  "ns_per_day = 86400000000000"

text \<open>Proleptic Gregorian date (year, month, day) of a day number counted from 1970-01-01.\<close>

definition civil_from_days :: "int \<Rightarrow> int \<times> int \<times> int" where
  "civil_from_days z0 =
     (let z = z0 + 719468;
          era = z div 146097;
          doe = z - era * 146097;
          yoe = (doe - doe div 1460 + doe div 36524 - doe div 146096) div 365;
          y = yoe + era * 400;
          doy = doe - (365 * yoe + yoe div 4 - yoe div 100);
          mp = (5 * doy + 2) div 153;
          d = doy - (153 * mp + 2) div 5 + 1;
          m = (if mp < 10 then mp + 3 else mp - 9)
      in (if m \<le> 2 then y + 1 else y, m, d))"

definition dt_year :: "int \<Rightarrow> int" where
  "dt_year t = fst (civil_from_days (t div ns_per_day))"

definition dt_month :: "int \<Rightarrow> int" where
  "dt_month t = fst (snd (civil_from_days (t div ns_per_day)))"

text \<open>Monday is 0; 1970-01-01 was a Thursday.\<close>

definition dt_dayofweek :: "int \<Rightarrow> int" where
  "dt_dayofweek t = (t div ns_per_day + 3) mod 7"

subsection \<open>Lines 52-57: derived columns of fato\_vendas\<close>

record venda =
  v_ID_Venda :: nat
  v_Data_Venda :: int
  v_ID_Cliente :: nat
  v_ID_Produto :: nat
  v_Quantidade :: int
  v_Receita_Liquida :: real
  v_Lucro_Bruto :: real
  Ano :: int
  Mes :: int
  Dia_Semana :: int
  Margem_Pct :: float64

definition margem_pct :: "real \<Rightarrow> real \<Rightarrow> float64" where
  "margem_pct lucro receita = fround2 (fscale (fdiv lucro receita) 100)"

definition derivar :: "linha \<Rightarrow> venda" where
  "derivar r =
     (let t = ts (Data_Venda r); rec = num (Receita_Liquida r); luc = num (Lucro_Bruto r)
      in \<lparr> v_ID_Venda = ID_Venda r, v_Data_Venda = t, v_ID_Cliente = ID_Cliente r,
           v_ID_Produto = ID_Produto r, v_Quantidade = Quantidade r,
           v_Receita_Liquida = rec, v_Lucro_Bruto = luc,
           Ano = dt_year t, Mes = dt_month t, Dia_Semana = dt_dayofweek t,
           Margem_Pct = margem_pct luc rec \<rparr>)"

text \<open>
  The \<^verbatim>\<open>.dt\<close> accessor raises AttributeError on a column that is not datetime-like
  (line 52); dividing a column of strings raises TypeError (line 56). Only then are the
  cells read as timestamps and numbers.
\<close>

definition normalizar :: "linha list \<Rightarrow> exn + venda list" where
  "normalizar rows =
     (if \<not> datetimelike rows then Inl AttributeError
      else if \<not> (numeric Lucro_Bruto rows \<and> numeric Receita_Liquida rows) then Inl TypeError
      else Inr (map derivar rows))"

subsection \<open>\<^verbatim>\<open>groupby\<close>: one group per distinct key, keys ascending\<close>

definition groupby :: "('r \<Rightarrow> 'k::linorder) \<Rightarrow> 'r list \<Rightarrow> ('k \<times> 'r list) list" where
  "groupby key rows =
     map (\<lambda>k. (k, filter (\<lambda>r. key r = k) rows)) (sort (remdups (map key rows)))"

subsection \<open>Lines 60-70: the monthly table (vendas\_mensais)\<close>

record mensal =
  m_Ano :: int
  m_Mes :: int
  m_Receita_Liquida :: real
  m_Lucro_Bruto :: real
  m_Quantidade :: int
  Qtd_Vendas :: nat
  Ticket_Medio :: float64

definition agregar_mes :: "(int \<times> int) \<times> venda list \<Rightarrow> mensal" where
  "agregar_mes kg =
     (let g = snd kg;
          receita = sum_list (map v_Receita_Liquida g);
          qtd = length (map v_ID_Venda g)
      in \<lparr> m_Ano = fst (fst kg), m_Mes = snd (fst kg),
           m_Receita_Liquida = receita,
           m_Lucro_Bruto = sum_list (map v_Lucro_Bruto g),
           m_Quantidade = sum_list (map v_Quantidade g),
           Qtd_Vendas = qtd,
           Ticket_Medio = fround2 (fdiv receita (real qtd)) \<rparr>)"

definition calc_vendas_mensais :: "venda list \<Rightarrow> mensal list" where
  "calc_vendas_mensais fv = map agregar_mes (groupby (\<lambda>r. (Ano r, Mes r)) fv)"

subsection \<open>\<^verbatim>\<open>pd.qcut(x, q, labels=..., duplicates='drop')\<close>\<close>

text \<open>The \<open>q + 1\<close> probabilities \<^verbatim>\<open>np.linspace(0, 1, q + 1)\<close>.\<close>

definition linspace :: "nat \<Rightarrow> real list" where
  "linspace q = map (\<lambda>i. real i / real q) [0..<q + 1]"

text \<open>\<^verbatim>\<open>Series.quantile\<close> of a non-empty column, linear interpolation between the two
  neighbouring order statistics.\<close>

definition quantile :: "real list \<Rightarrow> real \<Rightarrow> real" where
  "quantile x p =
     (let s = sort x;
          h = p * real (length s - 1);
          lo = nat \<lfloor>h\<rfloor>;
          hi = min (lo + 1) (length s - 1)
      in s ! lo + (h - real lo) * (s ! hi - s ! lo))"

text \<open>\<^verbatim>\<open>algos.unique\<close>: the distinct values, in order of first appearance.\<close>

definition unique :: "'a list \<Rightarrow> 'a list" where
  "unique xs = rev (remdups (rev xs))"

text \<open>\<^verbatim>\<open>bins.searchsorted(v, side='left')\<close> on ascending bin edges: the number of edges
  below \<open>v\<close>.\<close>

definition searchsorted :: "real list \<Rightarrow> real \<Rightarrow> nat" where
  "searchsorted bins v = length (filter (\<lambda>b. b < v) bins)"

text \<open>
  \<^verbatim>\<open>qcut\<close> computes the bin edges as quantiles, drops repeated edges
  (\<^verbatim>\<open>duplicates='drop'\<close>), and then requires one label per remaining bin:
  \<^verbatim>\<open>ValueError("Bin labels must be one fewer than the number of bin edges")\<close>.
  A value gets the label of its bin, the lowest edge included; a value outside every
  bin gets no label (NaN). On an empty column every quantile is NaN, the edges drop to
  one and the same ValueError is raised.
\<close>

definition qcut :: "real list \<Rightarrow> nat \<Rightarrow> nat list \<Rightarrow> exn + nat option list" where
  "qcut x q labels =
     (if x = [] then Inl ValueError
      else
        let bins0 = map (quantile x) (linspace q);
            bins = (if length (unique bins0) < length bins0 \<and> length bins0 \<noteq> 2
                    then unique bins0 else bins0)
        in if length labels \<noteq> length bins - 1 then Inl ValueError
           else Inr (map (\<lambda>v. let i = (if v = hd bins then 1 else searchsorted bins v)
                               in if i = length bins \<or> i = 0 then None
                                  else Some (labels ! (i - 1))) x))"

subsection \<open>Lines 73-108: the customer table (rfm\_clientes)\<close>

record rfm =
  c_ID_Cliente :: nat
  Recencia :: int
  Frequencia :: nat
  Monetario :: real
  R_Score :: "nat option"
  F_Score :: "nat option"
  M_Score :: "nat option"
  RFM_Score :: string
  Segmento_RFM :: string

text \<open>\<^verbatim>\<open>(hoje - x.max()).days\<close>: the whole days of the time difference, rounded down.\<close>

definition recencia :: "int \<Rightarrow> venda list \<Rightarrow> int" where
  "recencia hoje g = (hoje - Max (set (map v_Data_Venda g))) div ns_per_day"

text \<open>Decimal digits of a number, \<^verbatim>\<open>str\<close> of an integer label.\<close>

fun str_nat :: "nat \<Rightarrow> string" where
  "str_nat n =
     (if n < 10 then [''0123456789'' ! n]
      else str_nat (n div 10) @ [''0123456789'' ! (n mod 10)])"

declare str_nat.simps [simp del]

text \<open>\<^verbatim>\<open>.astype(str)\<close> of a score column: a missing score prints as \<^verbatim>\<open>nan\<close>.\<close>

definition str_score :: "nat option \<Rightarrow> string" where
  "str_score s = (case s of None \<Rightarrow> ''nan'' | Some n \<Rightarrow> str_nat n)"

text \<open>\<^verbatim>\<open>Series.apply\<close>: the first exception of the function ends the call.\<close>

fun apply_rows :: "('a \<Rightarrow> exn + 'b) \<Rightarrow> 'a list \<Rightarrow> exn + 'b list" where
  "apply_rows f [] = Inr []"
| "apply_rows f (x # xs) =
     (case f x of
        Inl e \<Rightarrow> Inl e
      | Inr y \<Rightarrow> (case apply_rows f xs of Inl e \<Rightarrow> Inl e | Inr ys \<Rightarrow> Inr (y # ys)))"

definition montar_rfm ::
  "(nat \<times> int \<times> nat \<times> real) \<times> nat option \<times> nat option \<times> nat option \<Rightarrow> exn + rfm" where
  "montar_rfm row =
     (case row of ((cid, rec, freq, mon), r, f, m) \<Rightarrow>
        let score = str_score r @ str_score f @ str_score m
        in (case segment_customer score of
              Inl e \<Rightarrow> Inl e
            | Inr seg \<Rightarrow>
                Inr \<lparr> c_ID_Cliente = cid, Recencia = rec, Frequencia = freq, Monetario = mon,
                      R_Score = r, F_Score = f, M_Score = m,
                      RFM_Score = score, Segmento_RFM = seg \<rparr>))"

text \<open>The per-customer reduction of lines 75-81; \<open>hoje\<close> is the reading of the clock.\<close>

definition reduzir_cliente :: "int \<Rightarrow> nat \<times> venda list \<Rightarrow> nat \<times> int \<times> nat \<times> real" where
  "reduzir_cliente hoje kg =
     (fst kg, recencia hoje (snd kg), length (map v_ID_Venda (snd kg)),
      sum_list (map v_Receita_Liquida (snd kg)))"

definition calc_rfm :: "int \<Rightarrow> venda list \<Rightarrow> exn + rfm list" where
  "calc_rfm hoje fv =
     (let base = map (reduzir_cliente hoje) (groupby v_ID_Cliente fv)
      in case qcut (map (\<lambda>(c, r, f, m). real_of_int r) base) 5 [5, 4, 3, 2, 1] of
           Inl e \<Rightarrow> Inl e
         | Inr rs \<Rightarrow>
        (case qcut (map (\<lambda>(c, r, f, m). real f) base) 5 [1, 2, 3, 4, 5] of
           Inl e \<Rightarrow> Inl e
         | Inr fs \<Rightarrow>
        (case qcut (map (\<lambda>(c, r, f, m). m) base) 5 [1, 2, 3, 4, 5] of
           Inl e \<Rightarrow> Inl e
         | Inr ms \<Rightarrow> apply_rows montar_rfm (zip base (zip rs (zip fs ms))))))"

subsection \<open>Lines 111-130: the product table (abc\_produtos)\<close>

record produto =
  p_ID_Produto :: nat
  p_Receita_Liquida :: real
  p_Quantidade :: int

record abc =
  a_ID_Produto :: nat
  a_Receita_Liquida :: real
  a_Quantidade :: int
  Receita_Acumulada :: real
  Pct_Acumulado :: float64
  Classe_ABC :: string

definition agregar_produto :: "nat \<times> venda list \<Rightarrow> produto" where
  "agregar_produto kg =
     \<lparr> p_ID_Produto = fst kg,
       p_Receita_Liquida = sum_list (map v_Receita_Liquida (snd kg)),
       p_Quantidade = sum_list (map v_Quantidade (snd kg)) \<rparr>"

text \<open>
  \<^verbatim>\<open>sort_values('Receita_Liquida', ascending=False)\<close> sorts with the library's default
  algorithm (\<^verbatim>\<open>kind='quicksort'\<close>), which is not stable: the result is the table
  rearranged so that the revenue does not increase, and nothing fixes the order of rows
  of equal revenue. The sort is a parameter \<open>srt\<close> of the model, and \<open>sort_values_desc\<close>
  is what the library promises of it.
\<close>

definition sort_values_desc :: "(produto list \<Rightarrow> produto list) \<Rightarrow> bool" where
  "sort_values_desc srt \<longleftrightarrow>
     (\<forall>xs. mset (srt xs) = mset xs \<and>
           sorted_wrt (\<lambda>a b. p_Receita_Liquida b \<le> p_Receita_Liquida a) (srt xs))"

fun cumsum_from :: "real \<Rightarrow> real list \<Rightarrow> real list" where
  "cumsum_from a [] = []"
| "cumsum_from a (x # xs) = (a + x) # cumsum_from (a + x) xs"

definition cumsum :: "real list \<Rightarrow> real list" where
  "cumsum xs = cumsum_from 0 xs"

definition montar_abc :: "real \<Rightarrow> produto \<times> real \<Rightarrow> abc" where
  "montar_abc total_receita pa =
     (let pct = fround2 (fscale (fdiv (snd pa) total_receita) 100)
      in \<lparr> a_ID_Produto = p_ID_Produto (fst pa),
           a_Receita_Liquida = p_Receita_Liquida (fst pa),
           a_Quantidade = p_Quantidade (fst pa),
           Receita_Acumulada = snd pa,
           Pct_Acumulado = pct,
           Classe_ABC = classificar_abc pct \<rparr>)"

definition calc_abc :: "(produto list \<Rightarrow> produto list) \<Rightarrow> venda list \<Rightarrow> abc list" where
  "calc_abc srt fv =
     (let vendas_produto = srt (map agregar_produto (groupby v_ID_Produto fv));
          acumulada = cumsum (map p_Receita_Liquida vendas_produto);
          total_receita = sum_list (map p_Receita_Liquida vendas_produto)
      in map (montar_abc total_receita) (zip vendas_produto acumulada))"

subsection \<open>The pipeline object and transform (lines 46-137)\<close>

text \<open>
  \<^verbatim>\<open>self.fato_vendas\<close> is the table as extracted until lines 52-57 have added the derived
  columns. The other three tables are attributes that exist only once assigned.
\<close>

datatype fato = Extraida "linha list" | Derivada "venda list"

record etl =
  fato_vendas :: fato
  vendas_mensais :: "mensal list option"
  rfm_clientes :: "rfm list option"
  abc_produtos :: "abc list option"

text \<open>
  The body of the \<^verbatim>\<open>try\<close> block: the exception that ended it, if any, and the object
  as the body left it. \<open>hoje\<close> is the value \<^verbatim>\<open>pd.Timestamp.now()\<close> returns at line 73,
  \<open>srt\<close> the sort of line 116. When lines 52-57 raise, the columns added before the
  raising line are not kept in the model.
\<close>

definition transform_body ::
  "int \<Rightarrow> (produto list \<Rightarrow> produto list) \<Rightarrow> etl \<Rightarrow> exn option \<times> etl" where
  "transform_body hoje srt s =
     (case (case fato_vendas s of Extraida rows \<Rightarrow> normalizar rows | Derivada fv \<Rightarrow> Inr fv) of
        Inl e \<Rightarrow> (Some e, s)
      | Inr fv \<Rightarrow>
          let s1 = s\<lparr> fato_vendas := Derivada fv,
                      vendas_mensais := Some (calc_vendas_mensais fv) \<rparr>
          in (case calc_rfm hoje fv of
                Inl e \<Rightarrow> (Some e, s1)
              | Inr tab \<Rightarrow>
                  (None, s1\<lparr> rfm_clientes := Some tab,
                             abc_produtos := Some (calc_abc srt fv) \<rparr>)))"

text \<open>\<^verbatim>\<open>except Exception\<close>: every exception is logged and turned into the result False.\<close>

definition transform ::
  "int \<Rightarrow> (produto list \<Rightarrow> produto list) \<Rightarrow> etl \<Rightarrow> bool \<times> etl" where
  "transform hoje srt s =
     (case transform_body hoje srt s of
        (None, s') \<Rightarrow> (True, s')
      | (Some e, s') \<Rightarrow> (False, s'))"

subsection \<open>load and run (lines 139-187)\<close>

record arquivos =
  vendas_mensais_csv :: "mensal list option"
  rfm_clientes_csv :: "rfm list option"
  abc_produtos_csv :: "abc list option"
  fato_vendas_csv :: "fato option"

definition sem_arquivos :: arquivos where
  "sem_arquivos =
     \<lparr> vendas_mensais_csv = None, rfm_clientes_csv = None, abc_produtos_csv = None,
       fato_vendas_csv = None \<rparr>"

text \<open>The four files are written in the order of lines 145-150; reading an attribute
  that was never assigned raises AttributeError, which load turns into False.\<close>

definition load :: "etl \<Rightarrow> arquivos \<Rightarrow> bool \<times> arquivos" where
  "load s d =
     (case vendas_mensais s of
        None \<Rightarrow> (False, d)
      | Some m \<Rightarrow>
          let d1 = d\<lparr> vendas_mensais_csv := Some m \<rparr>
          in (case rfm_clientes s of
                None \<Rightarrow> (False, d1)
              | Some r \<Rightarrow>
                  let d2 = d1\<lparr> rfm_clientes_csv := Some r \<rparr>
                  in (case abc_produtos s of
                        None \<Rightarrow> (False, d2)
                      | Some a \<Rightarrow>
                          (True, d2\<lparr> abc_produtos_csv := Some a,
                                     fato_vendas_csv := Some (fato_vendas s) \<rparr>))))"

text \<open>The object after a successful extract that read the sales table \<open>rows\<close>.\<close>

definition extraido :: "linha list \<Rightarrow> etl" where
  "extraido rows =
     \<lparr> fato_vendas = Extraida rows, vendas_mensais = None, rfm_clientes = None,
       abc_produtos = None \<rparr>"

text \<open>run, from there: load is only called when transform returned True.\<close>

definition run ::
  "int \<Rightarrow> (produto list \<Rightarrow> produto list) \<Rightarrow> linha list \<Rightarrow> bool \<times> arquivos" where
  "run hoje srt rows =
     (case transform hoje srt (extraido rows) of
        (False, s1) \<Rightarrow> (False, sem_arquivos)
      | (True, s1) \<Rightarrow> load s1 sem_arquivos)"

subsection \<open>A stable descending sort, one admissible \<open>srt\<close>\<close>

definition ordenar_estavel :: "produto list \<Rightarrow> produto list" where
  "ordenar_estavel xs = sort_key (\<lambda>p. - p_Receita_Liquida p) xs"

subsection \<open>Another admissible \<open>srt\<close>: ascending stable sort, then reversed\<close>


subsection \<open>The three sales of the end-to-end example\<close>

definition dia :: "int \<Rightarrow> int" where
  "dia n = n * ns_per_day"

definition exemplo :: "linha list" where
  "exemplo =
     [\<lparr> ID_Venda = 1, Data_Venda = Timestamp (dia 19737), ID_Cliente = 1, ID_Produto = 1,
        Quantidade = 1, Receita_Liquida = Num 100, Lucro_Bruto = Num 40 \<rparr>,
      \<lparr> ID_Venda = 2, Data_Venda = Timestamp (dia 19738), ID_Cliente = 1, ID_Produto = 1,
        Quantidade = 2, Receita_Liquida = Num 200, Lucro_Bruto = Num 80 \<rparr>,
      \<lparr> ID_Venda = 3, Data_Venda = Timestamp (dia 19737), ID_Cliente = 2, ID_Produto = 2,
        Quantidade = 1, Receita_Liquida = Num 50, Lucro_Bruto = Num 10 \<rparr>]"

subsection \<open>Further sample tables\<close>



text \<open>A sale of net revenue zero and gross profit 10.\<close>

definition brinde :: "linha list" where
  "brinde =
     [\<lparr> ID_Venda = 1, Data_Venda = Timestamp (dia 19737), ID_Cliente = 1, ID_Produto = 1,
        Quantidade = 1, Receita_Liquida = Num 100, Lucro_Bruto = Num 40 \<rparr>,
      \<lparr> ID_Venda = 2, Data_Venda = Timestamp (dia 19738), ID_Cliente = 1, ID_Produto = 1,
        Quantidade = 2, Receita_Liquida = Num 200, Lucro_Bruto = Num 80 \<rparr>,
      \<lparr> ID_Venda = 3, Data_Venda = Timestamp (dia 19737), ID_Cliente = 2, ID_Produto = 2,
        Quantidade = 1, Receita_Liquida = Num 0, Lucro_Bruto = Num 10 \<rparr>]"

text \<open>A sale whose date does not parse; a sale whose net revenue is not a number.\<close>

definition data_invalida :: "linha list" where
  "data_invalida =
     [\<lparr> ID_Venda = 1, Data_Venda = Timestamp (dia 19737), ID_Cliente = 1, ID_Produto = 1,
        Quantidade = 1, Receita_Liquida = Num 100, Lucro_Bruto = Num 40 \<rparr>,
      \<lparr> ID_Venda = 2, Data_Venda = Unparsed ''31/02/2024'', ID_Cliente = 2, ID_Produto = 2,
        Quantidade = 1, Receita_Liquida = Num 50, Lucro_Bruto = Num 10 \<rparr>]"

definition receita_invalida :: "linha list" where
  "receita_invalida =
     [\<lparr> ID_Venda = 1, Data_Venda = Timestamp (dia 19737), ID_Cliente = 1, ID_Produto = 1,
        Quantidade = 1, Receita_Liquida = Num 100, Lucro_Bruto = Num 40 \<rparr>,
      \<lparr> ID_Venda = 2, Data_Venda = Timestamp (dia 19738), ID_Cliente = 2, ID_Produto = 2,
        Quantidade = 1, Receita_Liquida = Text ''abc'', Lucro_Bruto = Num 10 \<rparr>]"

text \<open>Two customers with one purchase each.\<close>

definition uma_compra_cada :: "linha list" where
  "uma_compra_cada =
     [\<lparr> ID_Venda = 1, Data_Venda = Timestamp (dia 19737), ID_Cliente = 1, ID_Produto = 1,
        Quantidade = 1, Receita_Liquida = Num 100, Lucro_Bruto = Num 40 \<rparr>,
      \<lparr> ID_Venda = 2, Data_Venda = Timestamp (dia 19738), ID_Cliente = 2, ID_Produto = 2,
        Quantidade = 1, Receita_Liquida = Num 50, Lucro_Bruto = Num 10 \<rparr>]"



subsection \<open>The rule chain of the specification\<close>




section \<open>Properties\<close>

subsection \<open>Rounding\<close>

lemma rint_exact: "rint (of_int k) = k"
  by (simp add: rint_def Let_def)







subsection \<open>Quantile bins\<close>











subsection \<open>Segments\<close>









subsection \<open>ABC class and rounding\<close>



subsection \<open>Group sums\<close>

lemma sum_list_delta:
  fixes b :: "'a::comm_monoid_add"
  assumes "distinct ks" "a \<in> set ks"
  shows "(\<Sum>k\<leftarrow>ks. if a = k then b else 0) = b"
proof -
  have "(\<Sum>k\<leftarrow>ks. if a = k then b else 0) = (\<Sum>k\<in>set ks. if a = k then b else 0)"
    using assms(1) by (rule sum_list_distinct_conv_sum_set)
  also have "\<dots> = b" using assms(2) by simp
  finally show ?thesis .
qed

lemma sum_by_key:
  fixes f :: "'r \<Rightarrow> 'a::comm_monoid_add"
  assumes "distinct ks" "key ` set rows \<subseteq> set ks"
  shows "(\<Sum>k\<leftarrow>ks. sum_list (map f (filter (\<lambda>r. key r = k) rows))) = sum_list (map f rows)"
  using assms(2)
proof (induction rows)
  case Nil
  then show ?case by simp
next
  case (Cons r rows)
  have "(\<Sum>k\<leftarrow>ks. sum_list (map f (filter (\<lambda>r. key r = k) (r # rows))))
      = (\<Sum>k\<leftarrow>ks. (if key r = k then f r else 0) + sum_list (map f (filter (\<lambda>r. key r = k) rows)))"
    by (rule arg_cong [where f = sum_list]) (auto intro!: map_cong)
  also have "\<dots> = (\<Sum>k\<leftarrow>ks. if key r = k then f r else 0)
                 + (\<Sum>k\<leftarrow>ks. sum_list (map f (filter (\<lambda>r. key r = k) rows)))"
    by (simp add: sum_list_addf)
  also have "\<dots> = f r + sum_list (map f rows)"
    using Cons sum_list_delta [OF assms(1), of "key r" "f r"] by simp
  finally show ?case by simp
qed

lemma groupby_sum:
  fixes f :: "'r \<Rightarrow> 'a::comm_monoid_add"
  shows "(\<Sum>kg\<leftarrow>groupby key rows. sum_list (map f (snd kg))) = sum_list (map f rows)"
proof -
  have "(\<Sum>kg\<leftarrow>groupby key rows. sum_list (map f (snd kg)))
      = (\<Sum>k\<leftarrow>sort (remdups (map key rows)). sum_list (map f (filter (\<lambda>r. key r = k) rows)))"
    by (simp add: groupby_def comp_def)
  also have "\<dots> = sum_list (map f rows)"
    by (rule sum_by_key) auto
  finally show ?thesis .
qed



lemma derivar_receita: "v_Receita_Liquida (derivar r) = num (Receita_Liquida r)"
  by (simp add: derivar_def Let_def)






subsection \<open>The product table\<close>

lemma length_cumsum_from: "length (cumsum_from a xs) = length xs"
  by (induction xs arbitrary: a) auto

lemma last_cumsum_from: "xs \<noteq> [] \<Longrightarrow> last (cumsum_from a xs) = a + sum_list xs"
proof (induction xs arbitrary: a)
  case Nil then show ?case by simp
next
  case (Cons x xs)
  show ?case
  proof (cases xs)
    case Nil then show ?thesis by simp
  next
    case (Cons y ys)
    then have "xs \<noteq> []" by simp
    from Cons.IH [OF this, of "a + x"] show ?thesis
      using Cons by (simp add: add.assoc)
  qed
qed

lemma produtos_total:
  "sum_list (map p_Receita_Liquida (map agregar_produto (groupby v_ID_Produto fv))) =
   sum_list (map v_Receita_Liquida fv)"
  by (simp add: comp_def agregar_produto_def groupby_sum)

lemma srt_total:
  assumes "sort_values_desc srt"
  shows "sum_list (map p_Receita_Liquida (srt xs)) = sum_list (map p_Receita_Liquida xs)"
proof -
  have "mset (srt xs) = mset xs" using assms by (simp add: sort_values_desc_def)
  then have "mset (map p_Receita_Liquida (srt xs)) = mset (map p_Receita_Liquida xs)" by simp
  then show ?thesis by (metis sum_mset_sum_list)
qed

lemma round2_100: "round2 100 = 100"
  using rint_exact [of 10000] by (simp add: round2_def)

lemma sort_values_desc_estavel: "sort_values_desc ordenar_estavel"
proof -
  have "sorted_wrt (\<lambda>a b. p_Receita_Liquida b \<le> p_Receita_Liquida a) (ordenar_estavel xs)" for xs
  proof -
    have "sorted (map (\<lambda>p. - p_Receita_Liquida p) (sort_key (\<lambda>p. - p_Receita_Liquida p) xs))"
      by (rule sorted_sort_key)
    then show ?thesis by (simp add: ordenar_estavel_def sorted_map)
  qed
  then show ?thesis by (simp add: sort_values_desc_def ordenar_estavel_def)
qed



lemma exemplo_total: "0 < sum_list (map v_Receita_Liquida (map derivar exemplo))"
  by (simp add: exemplo_def comp_def derivar_receita)

text \<open>
  C9. Whenever the total net revenue of the sales is strictly positive, the product
  table is not empty and the cumulative percentage of its last row is exactly 100.
\<close>

theorem cumulative_closure:
  assumes srt: "sort_values_desc srt" and pos: "0 < sum_list (map v_Receita_Liquida fv)"
  shows "calc_abc srt fv \<noteq> [] \<and> Pct_Acumulado (last (calc_abc srt fv)) = Fin 100"
proof -
  define vp where "vp = srt (map agregar_produto (groupby v_ID_Produto fv))"
  define acc where "acc = cumsum (map p_Receita_Liquida vp)"
  define tot where "tot = sum_list (map p_Receita_Liquida vp)"
  have tot: "tot = sum_list (map v_Receita_Liquida fv)"
    unfolding tot_def vp_def srt_total [OF srt] by (rule produtos_total)
  have totpos: "0 < tot" using tot pos by simp
  have vpne: "vp \<noteq> []" using totpos by (auto simp: tot_def)
  have lacc: "length acc = length vp" by (simp add: acc_def cumsum_def length_cumsum_from)
  have lastacc: "last acc = tot" using vpne by (simp add: acc_def cumsum_def last_cumsum_from tot_def)
  have abc: "calc_abc srt fv = map (montar_abc tot) (zip vp acc)"
    by (simp add: calc_abc_def Let_def vp_def acc_def tot_def)
  have zne: "zip vp acc \<noteq> []" using vpne lacc by (cases vp; cases acc) auto
  have "last (zip vp acc) = (last vp, last acc)"
    using lacc vpne by (metis last_zip length_0_conv)
  then have "last (calc_abc srt fv) = montar_abc tot (last vp, tot)"
    using zne by (simp add: abc last_map lastacc)
  then have "Pct_Acumulado (last (calc_abc srt fv)) = Fin 100"
    using totpos by (simp add: montar_abc_def Let_def fdiv_def fscale_def fround2_def round2_100)
  then show ?thesis using zne abc by simp
qed

theorem cumulative_closure_witness:
  "sort_values_desc ordenar_estavel \<and>
   0 < sum_list (map v_Receita_Liquida (map derivar exemplo)) \<and>
   calc_abc ordenar_estavel (map derivar exemplo) \<noteq> [] \<and>
   Pct_Acumulado (last (calc_abc ordenar_estavel (map derivar exemplo))) = Fin 100"
  using sort_values_desc_estavel exemplo_total
    cumulative_closure [OF sort_values_desc_estavel exemplo_total]
  by simp

subsection \<open>Order of the product table\<close>




subsection \<open>The product table when the total revenue is zero\<close>






subsection \<open>Margin of a sale without revenue\<close>

lemma margem_zero: "margem_pct l 0 = (if l = 0 then NaN else if 0 < l then PInf else NInf)"
  by (simp add: margem_pct_def fdiv_def fscale_def fround2_def)

lemma derivar_margem:
  "Margem_Pct (derivar r) = margem_pct (num (Lucro_Bruto r)) (num (Receita_Liquida r))"
  by (simp add: derivar_def Let_def)

lemma run_True:
  assumes "run hoje srt rows = (True, d)"
  shows "fato_vendas_csv d = Some (Derivada (map derivar rows))"
proof -
  obtain b s1 where t: "transform hoje srt (extraido rows) = (b, s1)" by (cases "transform hoje srt (extraido rows)")
  have b: "b" using assms t by (auto simp: run_def split: bool.splits)
  have l: "load s1 sem_arquivos = (True, d)" using assms t b by (simp add: run_def)
  have f: "fato_vendas s1 = Derivada (map derivar rows)"
    using t b
    by (auto simp: transform_def transform_body_def extraido_def Let_def normalizar_def
        split: sum.splits if_splits option.splits prod.splits)
  show ?thesis using l f
    by (auto simp: load_def Let_def sem_arquivos_def split: option.splits)
qed

lemma run_brinde: "fst (run (dia 19800) ordenar_estavel brinde)"
  by code_simp

text \<open>
  C4, as the code has it. For a sale whose net revenue is exactly zero the margin is
  NaN when the gross profit is zero as well, and otherwise the infinity of the sign of
  the gross profit; nothing is raised and the value is not replaced by zero. When run
  succeeds, the row with this margin is in the sales file written by load.
\<close>

theorem margin_zero_revenue:
  assumes "Receita_Liquida r = Num 0" and "Lucro_Bruto r = Num l"
  shows "Margem_Pct (derivar r) = (if l = 0 then NaN else if 0 < l then PInf else NInf) \<and>
         (r \<in> set rows \<and> run hoje srt rows = (True, d) \<longrightarrow>
            (\<exists>fv. fato_vendas_csv d = Some (Derivada fv) \<and> derivar r \<in> set fv))"
  using assms run_True [of hoje srt rows d]
  by (auto simp: derivar_margem margem_zero)

theorem margin_zero_revenue_witness:
  "Receita_Liquida (brinde ! 2) = Num 0 \<and> Lucro_Bruto (brinde ! 2) = Num 10 \<and>
   brinde ! 2 \<in> set brinde \<and> fst (run (dia 19800) ordenar_estavel brinde) \<and>
   Margem_Pct (derivar (brinde ! 2)) = PInf \<and>
   (\<exists>fv. fato_vendas_csv (snd (run (dia 19800) ordenar_estavel brinde)) = Some (Derivada fv) \<and>
         derivar (brinde ! 2) \<in> set fv)"
proof -
  have a: "Receita_Liquida (brinde ! 2) = Num 0" by (simp add: brinde_def)
  have b: "Lucro_Bruto (brinde ! 2) = Num 10" by (simp add: brinde_def)
  have c: "brinde ! 2 \<in> set brinde" by (simp add: brinde_def)
  have d: "run (dia 19800) ordenar_estavel brinde =
           (True, snd (run (dia 19800) ordenar_estavel brinde))"
    using run_brinde by (cases "run (dia 19800) ordenar_estavel brinde") simp
  show ?thesis
    using a b c d run_brinde
      margin_zero_revenue [OF a b, of brinde "dia 19800" ordenar_estavel
        "snd (run (dia 19800) ordenar_estavel brinde)"]
    by simp
qed

text \<open>
  C4 as stated gives NaN for every sale of net revenue zero. The sale of revenue 0 and
  gross profit 10 has margin plus infinity.
\<close>

theorem margin_nan_counterexample: "Margem_Pct (derivar (brinde ! 2)) = PInf \<and> Margem_Pct (derivar (brinde ! 2)) \<noteq> NaN"
  by (simp add: brinde_def derivar_margem margem_zero)

subsection \<open>Malformed sales\<close>

text \<open>
  C5, as the code has it. When a sale date does not parse, or a net revenue or gross
  profit is not a number, the body of transform ends with AttributeError or TypeError;
  transform catches it and returns False without having assigned any of the three
  derived tables, and run returns False without writing any file.
\<close>

theorem malformed_returns_false:
  assumes "\<not> datetimelike rows \<or> \<not> numeric Receita_Liquida rows \<or> \<not> numeric Lucro_Bruto rows"
  shows "fst (transform_body hoje srt (extraido rows)) \<in> {Some AttributeError, Some TypeError} \<and>
         \<not> fst (transform hoje srt (extraido rows)) \<and>
         vendas_mensais (snd (transform hoje srt (extraido rows))) = None \<and>
         rfm_clientes (snd (transform hoje srt (extraido rows))) = None \<and>
         abc_produtos (snd (transform hoje srt (extraido rows))) = None \<and>
         run hoje srt rows = (False, sem_arquivos)"
  using assms
  by (auto simp: run_def transform_def transform_body_def extraido_def normalizar_def)

theorem malformed_returns_false_witness:
  "\<not> datetimelike data_invalida \<and>
   fst (transform_body (dia 19800) ordenar_estavel (extraido data_invalida)) = Some AttributeError \<and>
   \<not> fst (transform (dia 19800) ordenar_estavel (extraido data_invalida)) \<and>
   run (dia 19800) ordenar_estavel data_invalida = (False, sem_arquivos) \<and>
   \<not> numeric Receita_Liquida receita_invalida \<and>
   fst (transform_body (dia 19800) ordenar_estavel (extraido receita_invalida)) = Some TypeError \<and>
   \<not> fst (transform (dia 19800) ordenar_estavel (extraido receita_invalida)) \<and>
   run (dia 19800) ordenar_estavel receita_invalida = (False, sem_arquivos)"
proof -
  have a: "\<not> datetimelike data_invalida" by (simp add: datetimelike_def data_invalida_def)
  have b: "fst (transform_body (dia 19800) ordenar_estavel (extraido data_invalida)) = Some AttributeError"
    using a by (simp add: transform_body_def extraido_def normalizar_def)
  have c: "\<not> numeric Receita_Liquida receita_invalida" by (simp add: numeric_def receita_invalida_def)
  have d: "fst (transform_body (dia 19800) ordenar_estavel (extraido receita_invalida)) = Some TypeError"
    by (simp add: transform_body_def extraido_def normalizar_def numeric_def datetimelike_def
          receita_invalida_def)
  show ?thesis
    using a b c d
      malformed_returns_false [of data_invalida "dia 19800" ordenar_estavel]
      malformed_returns_false [of receita_invalida "dia 19800" ordenar_estavel]
    by simp
qed

text \<open>
  C5 as stated has a MalformedRecordError surface to the caller. On a sale with an
  unparseable date and on one with a non-numeric net revenue, transform returns the
  value False; the exception inside was AttributeError, respectively TypeError.
\<close>

theorem malformed_record_counterexample:
  "fst (transform_body (dia 19800) ordenar_estavel (extraido data_invalida)) = Some AttributeError \<and>
   transform (dia 19800) ordenar_estavel (extraido data_invalida) = (False, extraido data_invalida) \<and>
   fst (transform_body (dia 19800) ordenar_estavel (extraido receita_invalida)) = Some TypeError \<and>
   fst (transform (dia 19800) ordenar_estavel (extraido receita_invalida)) = False"
  by (simp add: transform_def transform_body_def extraido_def normalizar_def datetimelike_def
        numeric_def data_invalida_def receita_invalida_def)

subsection \<open>Customers of identical frequency\<close>

lemma linspace_range: "0 < q \<Longrightarrow> p \<in> set (linspace q) \<Longrightarrow> 0 \<le> p \<and> p \<le> 1"
  by (auto simp: linspace_def)

lemma quantile_const:
  assumes ne: "x \<noteq> []" and c: "\<forall>v \<in> set x. v = c" and p: "0 \<le> p" "p \<le> 1"
  shows "quantile x p = c"
proof -
  define s where "s = sort x"
  define n where "n = length s"
  have n: "0 < n" using ne by (simp add: n_def s_def)
  have all: "s ! i = c" if "i < n" for i
  proof -
    have "s ! i \<in> set s" using that by (simp add: n_def)
    then show ?thesis using c by (simp add: s_def)
  qed
  define lo where "lo = nat \<lfloor>p * real (n - 1)\<rfloor>"
  have "p * real (n - 1) \<le> real (n - 1)" using p by (simp add: mult_left_le_one_le)
  then have "\<lfloor>p * real (n - 1)\<rfloor> \<le> int (n - 1)" by linarith
  then have lo: "lo < n" using n by (simp add: lo_def)
  have hi: "min (lo + 1) (n - 1) < n" using n by simp
  have "quantile x p = s ! lo + (p * real (n - 1) - real lo) * (s ! min (lo + 1) (n - 1) - s ! lo)"
    by (simp add: quantile_def Let_def s_def n_def lo_def)
  then show ?thesis using all [OF lo] all [OF hi] by simp
qed

lemma unique_replicate: "unique (replicate (Suc k) c) = [c]"
proof -
  have "remdups (replicate (Suc k) c) = [c]"
    by (induction k) auto
  then show ?thesis by (simp add: unique_def del: replicate.simps)
qed

lemma qcut_const:
  assumes ne: "x \<noteq> []" and c: "\<forall>v \<in> set x. v = c" and lab: "labels \<noteq> []"
  shows "qcut x 5 labels = Inl ValueError"
proof -
  have "map (quantile x) (linspace 5) = map (\<lambda>_. c) (linspace 5)"
    by (rule map_cong) (use quantile_const [OF ne c] linspace_range [of 5] in auto)
  also have "\<dots> = replicate 6 c" by (simp add: linspace_def map_replicate_const)
  finally have b0: "map (quantile x) (linspace 5) = replicate (Suc 5) c" by simp
  show ?thesis
    using ne lab unfolding qcut_def b0 Let_def unique_replicate by (cases labels) auto
qed

lemma qcut_Inl: "qcut x q labels = Inl e \<Longrightarrow> e = ValueError"
  by (auto simp: qcut_def Let_def split: if_splits)

lemma groupby_Nil: "groupby key rows = [] \<longleftrightarrow> rows = []"
proof -
  have "sort (remdups (map key rows)) = [] \<longleftrightarrow> set (sort (remdups (map key rows))) = {}"
    by (simp only: set_empty)
  also have "\<dots> \<longleftrightarrow> rows = []" by simp
  finally show ?thesis by (simp add: groupby_def)
qed

lemma normalizar_uma_compra_cada:
  "normalizar uma_compra_cada = Inr (map derivar uma_compra_cada)"
  by (simp add: normalizar_def uma_compra_cada_def datetimelike_def numeric_def)

text \<open>
  C1, what the code does. When every customer of a non-empty table has the same number
  of purchases, all six quantile edges of the frequency coincide, \<^verbatim>\<open>duplicates='drop'\<close>
  leaves one edge, and \<open>qcut\<close> raises ValueError because five labels were passed for
  zero bins: no F score is assigned, transform returns False and run writes no file.
\<close>

theorem identical_frequency_raises:
  assumes norm: "normalizar rows = Inr fv" and ne: "fv \<noteq> []"
    and same: "\<forall>kg \<in> set (groupby v_ID_Cliente fv). length (snd kg) = n"
  shows "calc_rfm hoje fv = Inl ValueError \<and>
         fst (transform_body hoje srt (extraido rows)) = Some ValueError \<and>
         run hoje srt rows = (False, sem_arquivos)"
proof -
  define base where "base = map (reduzir_cliente hoje) (groupby v_ID_Cliente fv)"
  have bne: "base \<noteq> []" using ne by (simp add: base_def groupby_Nil)
  have fcol: "\<forall>v \<in> set (map (\<lambda>(c, r, f, m). real f) base). v = real n"
    using same by (auto simp: base_def reduzir_cliente_def)
  have f: "qcut (map (\<lambda>(c, r, f, m). real f) base) 5 [1, 2, 3, 4, 5] = Inl ValueError"
    by (rule qcut_const) (use bne fcol in auto)
  have rfm: "calc_rfm hoje fv = Inl ValueError"
  proof (cases "qcut (map (\<lambda>(c, r, f, m). real_of_int r) base) 5 [5, 4, 3, 2, 1]")
    case (Inl e)
    then show ?thesis using qcut_Inl [OF Inl] by (simp add: calc_rfm_def base_def Let_def)
  next
    case (Inr rs)
    then show ?thesis using f by (simp add: calc_rfm_def base_def Let_def)
  qed
  have tb: "fst (transform_body hoje srt (extraido rows)) = Some ValueError"
    using norm rfm by (simp add: transform_body_def extraido_def Let_def)
  then have "transform hoje srt (extraido rows) = (False, snd (transform_body hoje srt (extraido rows)))"
    by (cases "transform_body hoje srt (extraido rows)") (simp add: transform_def)
  then have "run hoje srt rows = (False, sem_arquivos)" by (simp add: run_def)
  then show ?thesis using rfm tb by simp
qed

theorem identical_frequency_raises_witness:
  "normalizar uma_compra_cada = Inr (map derivar uma_compra_cada) \<and>
   map derivar uma_compra_cada \<noteq> [] \<and>
   list_all (\<lambda>kg. length (snd kg) = 1) (groupby v_ID_Cliente (map derivar uma_compra_cada)) \<and>
   calc_rfm (dia 19800) (map derivar uma_compra_cada) = Inl ValueError \<and>
   fst (transform_body (dia 19800) ordenar_estavel (extraido uma_compra_cada)) = Some ValueError \<and>
   run (dia 19800) ordenar_estavel uma_compra_cada = (False, sem_arquivos)"
proof -
  have ne: "map derivar uma_compra_cada \<noteq> []" by (simp add: uma_compra_cada_def)
  have same: "list_all (\<lambda>kg. length (snd kg) = 1) (groupby v_ID_Cliente (map derivar uma_compra_cada))"
    by code_simp
  then have same': "\<forall>kg \<in> set (groupby v_ID_Cliente (map derivar uma_compra_cada)). length (snd kg) = 1"
    by (simp add: list_all_iff)
  show ?thesis
    using normalizar_uma_compra_cada ne same
      identical_frequency_raises [OF normalizar_uma_compra_cada ne same', of "dia 19800" ordenar_estavel]
    by simp
qed

subsection \<open>Recency and the clock\<close>










end
